theory Spec2Isabelle
  imports Main "HOL-Library.Sublist" "HOL-Library.List_Lexorder"
begin

section \<open>Text\<close>

text \<open>
  A Python \<open>str\<close> is a sequence of Unicode code points; a code point is a natural number.
  \<open>asc\<close> reads an ASCII literal as such a sequence.
\<close>

type_synonym ustr = "nat list"

definition asc :: "string \<Rightarrow> ustr" where
  "asc = map of_char"

text \<open>
  The functions of the Python standard library that consult the Unicode character database
  are not part of the program. They are collected in a record and passed to every function
  that uses them, so that a theorem stated for all \<open>U\<close> holds for the real tables:
  \<^item> \<open>u_nfkd\<close>: \<^verbatim>\<open>unicodedata.normalize('NFKD', s)\<close>;
  \<^item> \<open>u_combining\<close>: \<^verbatim>\<open>unicodedata.combining(c)\<close>, the canonical combining class;
  \<^item> \<open>u_lower\<close>: \<^verbatim>\<open>str.lower\<close>;
  \<^item> \<open>u_isspace\<close>: the whitespace of \<^verbatim>\<open>\s\<close>, \<^verbatim>\<open>str.strip\<close> and \<^verbatim>\<open>str.split\<close>;
  \<^item> \<open>u_isword\<close>: the word characters of \<^verbatim>\<open>\w\<close>, which decide \<^verbatim>\<open>\b\<close>;
  \<^item> \<open>u_decimal\<close>: the characters of \<^verbatim>\<open>\d\<close> with the digit value \<^verbatim>\<open>int\<close> gives them;
  \<^item> \<open>u_ieq\<close>: whether a letter of a pattern compiled with \<^verbatim>\<open>re.IGNORECASE\<close> matches a
    character of the text.
\<close>

record unicode_db =
  u_nfkd :: "ustr \<Rightarrow> ustr"
  u_combining :: "nat \<Rightarrow> nat"
  u_lower :: "ustr \<Rightarrow> ustr"
  u_isspace :: "nat \<Rightarrow> bool"
  u_isword :: "nat \<Rightarrow> bool"
  u_decimal :: "nat \<Rightarrow> nat option"
  u_ieq :: "nat \<Rightarrow> nat \<Rightarrow> bool"

text \<open>The tables restricted to ASCII, where the real ones agree with them; used to run examples.\<close>

definition ascii_lower :: "nat \<Rightarrow> nat" where
  "ascii_lower c = (if 65 \<le> c \<and> c \<le> 90 then c + 32 else c)"

definition ascii_db :: unicode_db where
  "ascii_db = \<lparr>
     u_nfkd = (\<lambda>s. s),
     u_combining = (\<lambda>c. 0),
     u_lower = map ascii_lower,
     u_isspace = (\<lambda>c. (9 \<le> c \<and> c \<le> 13) \<or> (28 \<le> c \<and> c \<le> 32)),
     u_isword = (\<lambda>c. (48 \<le> c \<and> c \<le> 57) \<or> (65 \<le> c \<and> c \<le> 90) \<or> c = 95
                      \<or> (97 \<le> c \<and> c \<le> 122)),
     u_decimal = (\<lambda>c. if 48 \<le> c \<and> c \<le> 57 then Some (c - 48) else None),
     u_ieq = (\<lambda>p c. ascii_lower p = ascii_lower c) \<rparr>"

text \<open>A Python value that a function tests with \<^verbatim>\<open>isinstance(x, str)\<close>.\<close>

datatype pyval = Str ustr | NonStr

text \<open>\<^verbatim>\<open>sub in s\<close> for two strings.\<close>

fun contains :: "'a list \<Rightarrow> 'a list \<Rightarrow> bool" where
  "contains sub [] = (sub = [])"
| "contains sub (x # xs) = (prefix sub (x # xs) \<or> contains sub xs)"

section \<open>normalize\_token\<close>

text \<open>
  \<^verbatim>\<open>strip_accents\<close>: the characters of the NFKD form whose combining class is zero. The
  \<^verbatim>\<open>except\<close> branch is not reached for a \<open>str\<close>.
\<close>

definition strip_accents :: "unicode_db \<Rightarrow> ustr \<Rightarrow> ustr" where
  "strip_accents U s = filter (\<lambda>c. u_combining U c = 0) (u_nfkd U s)"

text \<open>The class \<^verbatim>\<open>[a-z0-9]\<close>, compiled without flags.\<close>

definition az09 :: "nat \<Rightarrow> bool" where
  "az09 c \<longleftrightarrow> (97 \<le> c \<and> c \<le> 122) \<or> (48 \<le> c \<and> c \<le> 57)"

fun normalize_token :: "unicode_db \<Rightarrow> pyval \<Rightarrow> ustr" where
  "normalize_token U NonStr = []"
| "normalize_token U (Str s) =
     filter az09 (filter (\<lambda>c. \<not> u_isspace U c) (u_lower U (strip_accents U s)))"

text \<open>
  What idempotence needs of the tables: text made of \<^verbatim>\<open>[a-z0-9]\<close> only is its own NFKD
  form and its own lower case, and none of these characters is a combining mark or
  whitespace.
\<close>

definition ascii_stable :: "unicode_db \<Rightarrow> bool" where
  "ascii_stable U \<longleftrightarrow>
     (\<forall>s. list_all az09 s \<longrightarrow> u_nfkd U s = s \<and> u_lower U s = s) \<and>
     (\<forall>c. az09 c \<longrightarrow> u_combining U c = 0 \<and> \<not> u_isspace U c)"

section \<open>Category resolution\<close>

definition compute_category_from_variation ::
  "unicode_db \<Rightarrow> ustr \<Rightarrow> ustr \<Rightarrow> ustr \<Rightarrow> ustr \<Rightarrow> ustr" where
  "compute_category_from_variation U initial_category variation enc_capa_cat enc_base_cat =
     (let v_norm = normalize_token U (Str variation);
          has_encosto = contains (asc ''encosto'') v_norm;
          has_capa_extra = contains (asc ''capaextra'') v_norm;
          has_com_capa = (contains (asc ''comcapa'') v_norm \<or> contains (asc ''+capa'') v_norm)
      in if has_encosto \<and> has_capa_extra then enc_capa_cat
         else if has_encosto \<and> has_com_capa \<and> initial_category \<noteq> enc_capa_cat then enc_base_cat
         else initial_category)"

section \<open>Regular expressions\<close>

text \<open>
  The patterns of the program are few and fixed, so each is written as a matcher: a function
  of the character before the position (\<open>None\<close> at the start of the text) and of the text from
  the position on, which returns what the match captures. \<open>re_search\<close> is \<^verbatim>\<open>pattern.search\<close>:
  the match at the leftmost position that has one.
\<close>

fun re_search :: "(nat option \<Rightarrow> ustr \<Rightarrow> 'r option) \<Rightarrow> nat option \<Rightarrow> ustr \<Rightarrow> 'r option" where
  "re_search m prev [] = m prev []"
| "re_search m prev (c # cs) =
     (case m prev (c # cs) of Some r \<Rightarrow> Some r | None \<Rightarrow> re_search m (Some c) cs)"

text \<open>
  A greedy repetition of a character class (\<^verbatim>\<open>\s*\<close>, \<^verbatim>\<open>\d+\<close>): the ways to cut the text after some
  characters of the class, the longest first, which is the order in which the backtracking
  matcher tries them. \<open>first_some\<close> takes the first alternative with which the rest of the
  pattern matches.
\<close>

fun greedy :: "('a \<Rightarrow> bool) \<Rightarrow> 'a list \<Rightarrow> ('a list \<times> 'a list) list" where
  "greedy P [] = [([], [])]"
| "greedy P (c # cs) =
     (if P c then map (\<lambda>(t, r). (c # t, r)) (greedy P cs) @ [([], c # cs)]
      else [([], c # cs)])"

fun first_some :: "('a \<Rightarrow> 'b option) \<Rightarrow> 'a list \<Rightarrow> 'b option" where
  "first_some f [] = None"
| "first_some f (x # xs) = (case f x of Some y \<Rightarrow> Some y | None \<Rightarrow> first_some f xs)"

text \<open>
  A literal of a pattern compiled with \<^verbatim>\<open>re.IGNORECASE\<close>: a letter matches the characters the
  tables relate to it, any other character matches itself only. \<open>lit\<close> returns the text after
  the literal.
\<close>

definition is_letter :: "nat \<Rightarrow> bool" where
  "is_letter c \<longleftrightarrow> (65 \<le> c \<and> c \<le> 90) \<or> (97 \<le> c \<and> c \<le> 122)"

definition ci_char :: "unicode_db \<Rightarrow> nat \<Rightarrow> nat \<Rightarrow> bool" where
  "ci_char U p c = (if is_letter p then u_ieq U p c else p = c)"

fun lit :: "unicode_db \<Rightarrow> ustr \<Rightarrow> ustr \<Rightarrow> ustr option" where
  "lit U [] s = Some s"
| "lit U (p # ps) [] = None"
| "lit U (p # ps) (c # cs) = (if ci_char U p c then lit U ps cs else None)"

definition isdig :: "unicode_db \<Rightarrow> nat \<Rightarrow> bool" where
  "isdig U c \<longleftrightarrow> u_decimal U c \<noteq> None"

text \<open>\<^verbatim>\<open>\b\<close>: exactly one of the two neighbouring characters is a word character.\<close>

definition word_at :: "unicode_db \<Rightarrow> nat option \<Rightarrow> bool" where
  "word_at U x = (case x of None \<Rightarrow> False | Some c \<Rightarrow> u_isword U c)"

definition boundary :: "unicode_db \<Rightarrow> nat option \<Rightarrow> ustr \<Rightarrow> bool" where
  "boundary U prev s = (word_at U prev \<noteq> word_at U (case s of [] \<Rightarrow> None | c # _ \<Rightarrow> Some c))"

text \<open>
  \<^verbatim>\<open>int(text)\<close> on an unsigned decimal literal, \<open>None\<close> for the \<^verbatim>\<open>ValueError\<close>. The
  program converts digit runs captured by \<^verbatim>\<open>\d+\<close> and the first token of a cell it wrote
  itself; the signs, underscores and surrounding blanks that \<^verbatim>\<open>int\<close> also accepts occur in
  neither.
\<close>

definition digit_val :: "unicode_db \<Rightarrow> nat \<Rightarrow> nat" where
  "digit_val U c = (case u_decimal U c of Some d \<Rightarrow> d | None \<Rightarrow> 0)"

definition py_int :: "unicode_db \<Rightarrow> ustr \<Rightarrow> nat option" where
  "py_int U ds =
     (if ds \<noteq> [] \<and> list_all (isdig U) ds
      then Some (foldl (\<lambda>a c. 10 * a + digit_val U c) 0 ds) else None)"

text \<open>\<^verbatim>\<open>str.strip()\<close>.\<close>

definition strip :: "unicode_db \<Rightarrow> ustr \<Rightarrow> ustr" where
  "strip U s = rev (dropWhile (u_isspace U) (rev (dropWhile (u_isspace U) s)))"

section \<open>Quantity, SKU and variation of a block\<close>

text \<open>\<^verbatim>\<open>(\d+)\<close> at the end of a pattern: the longest run of digits, at least one.\<close>

definition digits1 :: "unicode_db \<Rightarrow> ustr \<Rightarrow> ustr option" where
  "digits1 U s = (let ds = takeWhile (isdig U) s in if ds = [] then None else Some ds)"

text \<open>\<^verbatim>\<open>\s*[:=]\s*(\d+)\<close>, and the same with \<^verbatim>\<open>"?\<close> on both sides of the group.\<close>

definition kv_tail :: "unicode_db \<Rightarrow> ustr \<Rightarrow> ustr option" where
  "kv_tail U s =
     first_some (\<lambda>(_, r1). case r1 of [] \<Rightarrow> None
        | c # r2 \<Rightarrow> if c = 58 \<or> c = 61
                    then first_some (\<lambda>(_, r3). digits1 U r3) (greedy (u_isspace U) r2)
                    else None)
       (greedy (u_isspace U) s)"

definition quoted_digits :: "unicode_db \<Rightarrow> ustr \<Rightarrow> ustr option" where
  "quoted_digits U r =
     (case r of [] \<Rightarrow> None
      | c # r' \<Rightarrow> if c = 34
                  then (case digits1 U r' of Some ds \<Rightarrow> Some ds | None \<Rightarrow> digits1 U r)
                  else digits1 U r)"

definition kv_tail_quoted :: "unicode_db \<Rightarrow> ustr \<Rightarrow> ustr option" where
  "kv_tail_quoted U s =
     first_some (\<lambda>(_, r1). case r1 of [] \<Rightarrow> None
        | c # r2 \<Rightarrow> if c = 58 \<or> c = 61
                    then first_some (\<lambda>(_, r3). quoted_digits U r3) (greedy (u_isspace U) r2)
                    else None)
       (greedy (u_isspace U) s)"

text \<open>
  The five entries of \<^verbatim>\<open>QTD_PATTERNS\<close>, all compiled with \<^verbatim>\<open>re.IGNORECASE\<close>:
  \<^verbatim>\<open>Quantity:\s*(\d+)\<close>, \<^verbatim>\<open>"Quantity"\s*[:=]\s*"?(\d+)"?\<close>, \<^verbatim>\<open>\bqty\s*[:=]\s*(\d+)\<close>,
  \<^verbatim>\<open>\bquantity\s*[:=]\s*(\d+)\<close> and \<^verbatim>\<open>^\s*\[(\d+)\]\s\<close>. The last is anchored: it matches at
  the start of the text only.
\<close>

definition qtd_labeled :: "unicode_db \<Rightarrow> nat option \<Rightarrow> ustr \<Rightarrow> ustr option" where
  "qtd_labeled U prev s =
     (case lit U (asc ''Quantity:'') s of None \<Rightarrow> None
      | Some r \<Rightarrow> first_some (\<lambda>(_, r'). digits1 U r') (greedy (u_isspace U) r))"

definition qtd_quoted :: "unicode_db \<Rightarrow> nat option \<Rightarrow> ustr \<Rightarrow> ustr option" where
  "qtd_quoted U prev s =
     (case lit U (34 # asc ''Quantity'' @ [34]) s of None \<Rightarrow> None
      | Some r \<Rightarrow> kv_tail_quoted U r)"

definition qtd_qty :: "unicode_db \<Rightarrow> nat option \<Rightarrow> ustr \<Rightarrow> ustr option" where
  "qtd_qty U prev s =
     (if boundary U prev s
      then (case lit U (asc ''qty'') s of None \<Rightarrow> None | Some r \<Rightarrow> kv_tail U r)
      else None)"

definition qtd_quantity :: "unicode_db \<Rightarrow> nat option \<Rightarrow> ustr \<Rightarrow> ustr option" where
  "qtd_quantity U prev s =
     (if boundary U prev s
      then (case lit U (asc ''quantity'') s of None \<Rightarrow> None | Some r \<Rightarrow> kv_tail U r)
      else None)"

definition qtd_index :: "unicode_db \<Rightarrow> nat option \<Rightarrow> ustr \<Rightarrow> ustr option" where
  "qtd_index U prev s =
     (if prev \<noteq> None then None
      else first_some (\<lambda>(_, r). case r of [] \<Rightarrow> None
             | c # r1 \<Rightarrow> if c = 91
                  then first_some (\<lambda>(ds, r2). if ds = [] then None
                          else (case r2 of c2 # c3 # _ \<Rightarrow>
                                  if c2 = 93 \<and> u_isspace U c3 then Some ds else None
                                | _ \<Rightarrow> None))
                        (greedy (isdig U) r1)
                  else None)
            (greedy (u_isspace U) s))"

definition QTD_PATTERNS :: "unicode_db \<Rightarrow> (nat option \<Rightarrow> ustr \<Rightarrow> ustr option) list" where
  "QTD_PATTERNS U = [qtd_labeled U, qtd_quoted U, qtd_qty U, qtd_quantity U, qtd_index U]"

text \<open>
  The loop of \<^verbatim>\<open>extract_quantity_from_text\<close>: the first pattern that matches gives the
  number; should \<^verbatim>\<open>int\<close> raise, the \<^verbatim>\<open>except\<close> branch goes on with the next pattern.
\<close>

fun try_patterns ::
  "unicode_db \<Rightarrow> (nat option \<Rightarrow> ustr \<Rightarrow> ustr option) list \<Rightarrow> ustr \<Rightarrow> nat option" where
  "try_patterns U [] text = None"
| "try_patterns U (pat # pats) text =
     (case re_search pat None text of
        None \<Rightarrow> try_patterns U pats text
      | Some g \<Rightarrow> (case py_int U g of Some n \<Rightarrow> Some n | None \<Rightarrow> try_patterns U pats text))"

definition extract_quantity_from_text :: "unicode_db \<Rightarrow> pyval \<Rightarrow> nat option \<Rightarrow> nat" where
  "extract_quantity_from_text U text fallback =
     (case (case text of Str s \<Rightarrow> try_patterns U (QTD_PATTERNS U) s | NonStr \<Rightarrow> None) of
        Some n \<Rightarrow> n
      | None \<Rightarrow> (case fallback of None \<Rightarrow> 1 | Some f \<Rightarrow> f))"

text \<open>
  \<^verbatim>\<open>SKU_IN_PRODUCT_INFO\<close> is \<^verbatim>\<open>SKU Reference No\.\s*:\s*([A-Za-z0-9_\-\. ]+)\<close> and
  \<^verbatim>\<open>VAR_IN_PRODUCT_INFO\<close> is \<^verbatim>\<open>Variation Name\s*:\s*([^;\\n]+)\<close>, both with
  \<^verbatim>\<open>re.IGNORECASE\<close>. The second is a raw string, so its class excludes the semicolon, the
  backslash and the letter n (in either case), not the newline.
\<close>

definition sku_char :: "unicode_db \<Rightarrow> nat \<Rightarrow> bool" where
  "sku_char U c \<longleftrightarrow>
     (48 \<le> c \<and> c \<le> 57) \<or> c = 95 \<or> c = 45 \<or> c = 46 \<or> c = 32 \<or>
     list_ex (\<lambda>p. u_ieq U p c) ([65..<91] @ [97..<123])"

definition var_char :: "unicode_db \<Rightarrow> nat \<Rightarrow> bool" where
  "var_char U c \<longleftrightarrow> \<not> (c = 59 \<or> c = 92 \<or> u_ieq U 110 c)"

definition field_tail :: "unicode_db \<Rightarrow> (nat \<Rightarrow> bool) \<Rightarrow> ustr \<Rightarrow> ustr option" where
  "field_tail U cls s =
     first_some (\<lambda>(_, r1). case r1 of [] \<Rightarrow> None
        | c # r2 \<Rightarrow> if c = 58
                    then first_some (\<lambda>(_, r3). let g = takeWhile cls r3 in
                                                  if g = [] then None else Some g)
                           (greedy (u_isspace U) r2)
                    else None)
       (greedy (u_isspace U) s)"

definition SKU_IN_PRODUCT_INFO :: "unicode_db \<Rightarrow> nat option \<Rightarrow> ustr \<Rightarrow> ustr option" where
  "SKU_IN_PRODUCT_INFO U prev s =
     (case lit U (asc ''SKU Reference No.'') s of None \<Rightarrow> None
      | Some r \<Rightarrow> field_tail U (sku_char U) r)"

definition VAR_IN_PRODUCT_INFO :: "unicode_db \<Rightarrow> nat option \<Rightarrow> ustr \<Rightarrow> ustr option" where
  "VAR_IN_PRODUCT_INFO U prev s =
     (case lit U (asc ''Variation Name'') s of None \<Rightarrow> None
      | Some r \<Rightarrow> field_tail U (var_char U) r)"

definition extract_sku_and_var_from_text :: "unicode_db \<Rightarrow> pyval \<Rightarrow> ustr \<times> ustr" where
  "extract_sku_and_var_from_text U text =
     (case text of NonStr \<Rightarrow> ([], [])
      | Str s \<Rightarrow>
          if strip U s = [] then ([], [])
          else (case re_search (SKU_IN_PRODUCT_INFO U) None s of
                  Some g \<Rightarrow> strip U g | None \<Rightarrow> [],
                case re_search (VAR_IN_PRODUCT_INFO U) None s of
                  Some g \<Rightarrow> strip U g | None \<Rightarrow> []))"

text \<open>\<^verbatim>\<open>quant_kit_from_variation\<close> searches \<^verbatim>\<open>\b(\d+)\b\<close>.\<close>

definition kit_number :: "unicode_db \<Rightarrow> nat option \<Rightarrow> ustr \<Rightarrow> ustr option" where
  "kit_number U prev s =
     (if boundary U prev s
      then first_some (\<lambda>(ds, r). if ds \<noteq> [] \<and> boundary U (Some (last ds)) r
                                 then Some ds else None)
             (greedy (isdig U) s)
      else None)"

definition quant_kit_from_variation :: "unicode_db \<Rightarrow> pyval \<Rightarrow> nat" where
  "quant_kit_from_variation U variation =
     (case variation of NonStr \<Rightarrow> 1
      | Str s \<Rightarrow>
          if strip U s = [] then 1
          else (case re_search (kit_number U) None s of
                  None \<Rightarrow> 1
                | Some g \<Rightarrow> (case py_int U g of Some n \<Rightarrow> n | None \<Rightarrow> 1)))"

section \<open>One item\<close>

text \<open>
  The configuration. \<^verbatim>\<open>categories\<close> is a dictionary, read in insertion order, hence an
  association list. A key of \<^verbatim>\<open>special_rules\<close> may be absent.
\<close>

record category_meta =
  aliases :: "ustr list"
  output_format :: ustr

record special_rules =
  enc_capa_category :: "ustr option"
  enc_base_category :: "ustr option"

record config =
  priorities :: "ustr list"
  categories :: "(ustr \<times> category_meta) list"
  special_rules :: special_rules

text \<open>An entry of \<^verbatim>\<open>outputs\<close>: its \<^verbatim>\<open>"type"\<close> with its \<^verbatim>\<open>"value"\<close>.\<close>

datatype item_output = Numeric nat | Enc_capa nat

record diag =
  d_sku_raw :: ustr
  d_sku_norm :: ustr
  d_category :: ustr
  d_kit_qty :: nat
  d_kits_purchased :: nat
  d_unidades :: nat
  d_variation_seen :: ustr

text \<open>The loop over \<^verbatim>\<open>cfg["categories"].items()\<close>, which stops at the first category whose
  aliases hold the normalized SKU.\<close>

fun alias_category :: "ustr \<Rightarrow> (ustr \<times> category_meta) list \<Rightarrow> ustr" where
  "alias_category sku_norm [] = []"
| "alias_category sku_norm ((cat, meta) # rest) =
     (if sku_norm \<in> set (aliases meta) then cat else alias_category sku_norm rest)"

definition enc_capa_cat_of :: "config \<Rightarrow> ustr" where
  "enc_capa_cat_of cfg =
     (case enc_capa_category (special_rules cfg) of Some c \<Rightarrow> c | None \<Rightarrow> asc ''ENC_CAPA'')"

definition enc_base_cat_of :: "config \<Rightarrow> ustr" where
  "enc_base_cat_of cfg =
     (case enc_base_category (special_rules cfg) of Some c \<Rightarrow> c | None \<Rightarrow> asc ''ENC'')"

text \<open>The category after both steps, as \<^verbatim>\<open>compute_outputs_single_item\<close> computes it.\<close>

definition resolve :: "unicode_db \<Rightarrow> ustr \<Rightarrow> ustr \<Rightarrow> config \<Rightarrow> ustr" where
  "resolve U sku_raw variation cfg =
     compute_category_from_variation U
       (alias_category (normalize_token U (Str sku_raw)) (categories cfg))
       variation (enc_capa_cat_of cfg) (enc_base_cat_of cfg)"

text \<open>
  \<^verbatim>\<open>compute_outputs_single_item\<close>, called with the two strings and the number that
  \<^verbatim>\<open>run_process\<close> extracts from a block. \<open>outputs\<close> is a dictionary with at most one entry.
\<close>

definition compute_outputs_single_item ::
  "unicode_db \<Rightarrow> ustr \<Rightarrow> ustr \<Rightarrow> nat \<Rightarrow> config \<Rightarrow> (ustr \<times> item_output) list \<times> diag" where
  "compute_outputs_single_item U sku_raw variation qty_from_block cfg =
     (let kit_qty = quant_kit_from_variation U (Str variation);
          kits_purchased = (if qty_from_block \<noteq> 0 then qty_from_block else 1);
          unidades = kit_qty * kits_purchased;
          sku_norm = normalize_token U (Str sku_raw);
          enc_capa_cat = enc_capa_cat_of cfg;
          category = resolve U sku_raw variation cfg;
          outputs =
            (if category \<noteq> [] then
               (if category = enc_capa_cat \<and>
                   contains (asc ''capaextra'') (normalize_token U (Str variation))
                then [(category, Enc_capa kits_purchased)]
                else [(category, Numeric unidades)])
             else [])
      in (outputs,
          \<lparr> d_sku_raw = sku_raw, d_sku_norm = sku_norm, d_category = category,
            d_kit_qty = kit_qty, d_kits_purchased = kits_purchased, d_unidades = unidades,
            d_variation_seen = variation \<rparr>))"


section \<open>Blocks\<close>

text \<open>
  \<^verbatim>\<open>BLOCK_RE\<close> is \<^verbatim>\<open>\[\d+\][^\[]+\<close>: an opening bracket, digits, a closing bracket and
  at least one character other than an opening bracket. The matcher returns the matched text.
  \<^verbatim>\<open>re.IGNORECASE\<close> changes nothing here, the pattern has no letter.
\<close>

definition BLOCK_RE :: "unicode_db \<Rightarrow> ustr \<Rightarrow> ustr option" where
  "BLOCK_RE U s =
     (case s of [] \<Rightarrow> None
      | c # r \<Rightarrow>
          if c = 91
          then first_some (\<lambda>(ds, r2). if ds = [] then None
                  else (case r2 of [] \<Rightarrow> None
                        | c2 # r3 \<Rightarrow>
                            if c2 = 93
                            then (let body = takeWhile (\<lambda>x. x \<noteq> 91) r3
                                  in if body = [] then None else Some (91 # ds @ 93 # body))
                            else None))
                 (greedy (isdig U) r)
          else None)"

text \<open>
  \<^verbatim>\<open>BLOCK_RE.findall\<close>: the matches from left to right, the scan going on where a match
  ends (and one character further after an empty match, which this pattern never has).
\<close>

fun findall :: "unicode_db \<Rightarrow> ustr \<Rightarrow> ustr list" where
  "findall U [] = []"
| "findall U (c # cs) =
     (case BLOCK_RE U (c # cs) of
        Some m \<Rightarrow> m # findall U (drop (length m - 1) cs)
      | None \<Rightarrow> findall U cs)"

text \<open>The blocks of a row, lines 354 to 356 of \<^verbatim>\<open>run_process\<close>.\<close>

definition blocks_of :: "unicode_db \<Rightarrow> pyval \<Rightarrow> ustr list" where
  "blocks_of U product_info =
     (case product_info of NonStr \<Rightarrow> []
      | Str s \<Rightarrow> (let blocks = findall U s in if blocks = [] then [s] else blocks))"



section \<open>The tables\<close>

text \<open>
  A row of the input sheet. A cell of \<^verbatim>\<open>order_sn\<close> that is empty in the sheet is read as NaN,
  here \<open>None\<close>; a cell of \<^verbatim>\<open>product_info\<close> that holds no text is \<open>NonStr\<close>.
\<close>

record order_row =
  order_sn :: "ustr option"
  product_info :: pyval

text \<open>
  A cell of a category column: a number, a text (the empty text for an empty cell), or NaN
  for a column the row does not have. \<open>py_str\<close> is \<^verbatim>\<open>str(x)\<close>.
\<close>

datatype cell = Num nat | Txt ustr | NaN

fun str_nat :: "nat \<Rightarrow> ustr" where
  "str_nat n = (if n < 10 then [48 + n] else str_nat (n div 10) @ [48 + n mod 10])"

declare str_nat.simps [simp del]

fun py_str :: "cell \<Rightarrow> ustr" where
  "py_str (Num n) = str_nat n"
| "py_str (Txt t) = t"
| "py_str NaN = asc ''nan''"

text \<open>The accumulators of one row of the input, and the loop over the outputs of an item.\<close>

record row_acc =
  accum_numeric :: "ustr \<rightharpoonup> nat"
  accum_enc_capa :: nat
  per_block_variations :: "ustr list"
  per_block_sku :: "ustr list"
  diag_rows :: "(ustr option \<times> diag) list"

definition empty_acc :: row_acc where
  "empty_acc = \<lparr> accum_numeric = Map.empty, accum_enc_capa = 0, per_block_variations = [],
                 per_block_sku = [], diag_rows = [] \<rparr>"

fun add_output :: "row_acc \<Rightarrow> ustr \<times> item_output \<Rightarrow> row_acc" where
  "add_output acc (col, Numeric v) =
     acc\<lparr>accum_numeric :=
           (accum_numeric acc)(col \<mapsto> (case accum_numeric acc col of None \<Rightarrow> 0 | Some a \<Rightarrow> a) + v)\<rparr>"
| "add_output acc (col, Enc_capa v) = acc\<lparr>accum_enc_capa := accum_enc_capa acc + v\<rparr>"

definition process_block :: "unicode_db \<Rightarrow> config \<Rightarrow> ustr option \<Rightarrow> row_acc \<Rightarrow> ustr \<Rightarrow> row_acc" where
  "process_block U cfg sn acc blk =
     (let (sku_raw, variation) = extract_sku_and_var_from_text U (Str blk);
          qty_blk = extract_quantity_from_text U (Str blk) (Some 1);
          (outputs, dg) = compute_outputs_single_item U sku_raw variation qty_blk cfg;
          acc1 = acc\<lparr>per_block_variations := per_block_variations acc @ [d_variation_seen dg],
                     per_block_sku := per_block_sku acc @ [d_sku_raw dg],
                     diag_rows := diag_rows acc @ [(sn, dg)]\<rparr>
      in foldl add_output acc1 outputs)"

text \<open>\<^verbatim>\<open>sep.join(xs)\<close>.\<close>

fun join :: "'a list \<Rightarrow> 'a list list \<Rightarrow> 'a list" where
  "join sep [] = []"
| "join sep [x] = x"
| "join sep (x # y # ys) = x @ sep @ join sep (y # ys)"

text \<open>
  The category columns: the priorities that are categories, then the other categories sorted
  by their lower case.
\<close>

definition out_cols :: "unicode_db \<Rightarrow> config \<Rightarrow> ustr list" where
  "out_cols U cfg =
     (let cats = map fst (categories cfg);
          prios = filter (\<lambda>c. c \<in> set cats) (priorities cfg);
          remaining = filter (\<lambda>c. c \<notin> set prios) (sort_key (u_lower U) cats)
      in prios @ remaining)"

text \<open>
  A row of the detail table. The dictionary \<^verbatim>\<open>base\<close> gets the empty text for every category
  column, then the numeric accumulations, then the counted marker under the key
  \<^verbatim>\<open>"ENC_CAPA"\<close>; the data frame keeps the listed columns. The four leading columns are kept
  apart from the category cells: no category is taken to bear one of their names.
\<close>

record detail_row =
  r_order_sn :: "ustr option"
  r_sku_reference_no :: ustr
  r_variation_name :: ustr
  r_product_info :: pyval
  r_cells :: "ustr \<rightharpoonup> cell"

definition process_row ::
  "unicode_db \<Rightarrow> config \<Rightarrow> order_row \<Rightarrow> detail_row \<times> (ustr option \<times> diag) list" where
  "process_row U cfg row =
     (let cols = out_cols U cfg;
          acc = foldl (process_block U cfg (order_sn row)) empty_acc
                  (blocks_of U (product_info row));
          base0 = (\<lambda>c. if c \<in> set cols then Some (Txt []) else None);
          base1 = base0 ++ (\<lambda>c. map_option Num (accum_numeric acc c));
          base2 = (if accum_enc_capa acc > 0
                   then base1(asc ''ENC_CAPA'' \<mapsto> Txt (str_nat (accum_enc_capa acc) @ asc '' + C''))
                   else base1)
      in (\<lparr> r_order_sn = order_sn row,
             r_sku_reference_no = join (asc ''; '') (filter (\<lambda>s. s \<noteq> []) (per_block_sku acc)),
             r_variation_name =
               join (asc ''; '') (filter (\<lambda>v. v \<noteq> []) (per_block_variations acc)),
             r_product_info = product_info row,
             r_cells = base2 |` set cols \<rparr>,
          diag_rows acc))"

definition cell_at :: "detail_row \<Rightarrow> ustr \<Rightarrow> cell" where
  "cell_at r c = (case r_cells r c of Some v \<Rightarrow> v | None \<Rightarrow> NaN)"

text \<open>
  \<^verbatim>\<open>int(str(x).split()[0])\<close>; \<open>None\<close> stands for the exception, an \<^verbatim>\<open>IndexError\<close> when the
  text has no token and a \<^verbatim>\<open>ValueError\<close> when the token is no number.
\<close>

definition first_token :: "unicode_db \<Rightarrow> ustr \<Rightarrow> ustr" where
  "first_token U t = takeWhile (\<lambda>c. \<not> u_isspace U c) (dropWhile (u_isspace U) t)"

definition leading_int :: "unicode_db \<Rightarrow> cell \<Rightarrow> nat option" where
  "leading_int U x = py_int U (first_token U (py_str x))"

text \<open>
  \<^verbatim>\<open>sum_or_blank\<close>: \<^verbatim>\<open>pd.to_numeric\<close> with \<^verbatim>\<open>errors='coerce'\<close> keeps the numbers and turns
  the rest into NaN (the only text these columns hold is the empty one); the sum needs one
  number at least.
\<close>

definition sum_or_blank :: "cell list \<Rightarrow> cell" where
  "sum_or_blank series =
     (let numeric = List.map_filter (\<lambda>x. case x of Num n \<Rightarrow> Some n | _ \<Rightarrow> None) series
      in if numeric = [] then Txt [] else Num (sum_list numeric))"

text \<open>
  The aggregation of the column \<^verbatim>\<open>"ENC_CAPA"\<close> within an order, the \<^verbatim>\<open>lambda\<close> of
  \<^verbatim>\<open>agg_map\<close>: the sum of the leading numbers of the cells that are not blank. Nothing
  catches an exception there.
\<close>

fun enc_capa_agg :: "unicode_db \<Rightarrow> cell list \<Rightarrow> nat option" where
  "enc_capa_agg U [] = Some 0"
| "enc_capa_agg U (x # xs) =
     (if strip U (py_str x) = [] then enc_capa_agg U xs
      else (case leading_int U x of None \<Rightarrow> None
            | Some n \<Rightarrow> map_option (\<lambda>k. n + k) (enc_capa_agg U xs)))"

text \<open>The same column in the row \<^verbatim>\<open>TOTAL\<close>: the cells that raise are skipped.\<close>

definition enc_capa_total :: "unicode_db \<Rightarrow> cell list \<Rightarrow> cell" where
  "enc_capa_total U series =
     (let nums = List.map_filter (leading_int U) series
      in if nums \<noteq> [] then Txt (str_nat (sum_list nums) @ asc '' + C'') else Txt [])"

datatype error = ValueError

record summary_row =
  s_order_sn :: ustr
  s_cells :: "ustr \<rightharpoonup> cell"

text \<open>
  A row of \<^verbatim>\<open>resumo\<close>: \<^verbatim>\<open>groupby('order_sn').agg(agg_map)\<close> applied to the detail rows of
  one order.
\<close>

definition summary_of :: "unicode_db \<Rightarrow> ustr list \<Rightarrow> detail_row list \<Rightarrow> ustr \<Rightarrow> error + summary_row" where
  "summary_of U cols df_det k =
     (let grp = filter (\<lambda>r. r_order_sn r = Some k) df_det;
          enc = enc_capa_agg U (map (\<lambda>r. cell_at r (asc ''ENC_CAPA'')) grp)
      in if asc ''ENC_CAPA'' \<in> set cols \<and> enc = None then Inl ValueError
         else Inr \<lparr> s_order_sn = k,
                    s_cells = (\<lambda>c. if c \<notin> set cols then None
                                 else if c = asc ''ENC_CAPA''
                                 then map_option Num enc
                                 else Some (sum_or_blank (map (\<lambda>r. cell_at r c) grp))) \<rparr>)"

text \<open>Stops at the first row that raises.\<close>

fun collect :: "(error + 'a) list \<Rightarrow> error + 'a list" where
  "collect [] = Inr []"
| "collect (x # xs) =
     (case x of Inl e \<Rightarrow> Inl e
      | Inr v \<Rightarrow> (case collect xs of Inl e \<Rightarrow> Inl e | Inr vs \<Rightarrow> Inr (v # vs)))"

definition total_of :: "unicode_db \<Rightarrow> ustr list \<Rightarrow> detail_row list \<Rightarrow> ustr \<rightharpoonup> cell" where
  "total_of U cols df_det =
     (\<lambda>c. if c \<notin> set cols then None
          else if c = asc ''ENC_CAPA''
          then Some (enc_capa_total U (map (\<lambda>r. cell_at r c) df_det))
          else Some (sum_or_blank (map (\<lambda>r. cell_at r c) df_det)))"

text \<open>
  What \<^verbatim>\<open>run_process\<close> writes: the detail table, the summary rows of the orders (the group
  keys are the order numbers that are not NaN, each once, sorted), the row \<^verbatim>\<open>TOTAL\<close> and the
  diagnostic rows. Reading and writing the sheets is left out.
\<close>

record tables =
  df_det :: "detail_row list"
  resumo :: "summary_row list"
  total_row :: "ustr \<rightharpoonup> cell"
  diagnostico :: "(ustr option \<times> diag) list"

definition run_process :: "unicode_db \<Rightarrow> config \<Rightarrow> order_row list \<Rightarrow> error + tables" where
  "run_process U cfg rows =
     (let cols = out_cols U cfg;
          processed = map (process_row U cfg) rows;
          det = map fst processed;
          keys = sort (remdups (List.map_filter r_order_sn det))
      in case collect (map (summary_of U cols det) keys) of
           Inl e \<Rightarrow> Inl e
         | Inr res \<Rightarrow> Inr \<lparr> df_det = det, resumo = res, total_row = total_of U cols det,
                            diagnostico = concat (map snd processed) \<rparr>)"





section \<open>Configurations used in the examples\<close>

text \<open>
  \<open>example_cfg\<close> has the default special rules; \<open>renamed_cfg\<close> names the counted-marker
  category \<open>CAPA\<close> instead of \<open>ENC_CAPA\<close>.
\<close>

definition example_cfg :: config where
  "example_cfg = \<lparr>
     priorities = [asc ''PR'', asc ''R70'', asc ''ENC'', asc ''ENC_CAPA''],
     categories =
       [(asc ''PR'', \<lparr> aliases = [asc ''k1''], output_format = asc ''numeric'' \<rparr>),
        (asc ''R70'', \<lparr> aliases = [asc ''r7''], output_format = asc ''numeric'' \<rparr>),
        (asc ''ENC_CAPA'', \<lparr> aliases = [asc ''ec''], output_format = asc ''numeric'' \<rparr>)],
     special_rules = \<lparr> enc_capa_category = Some (asc ''ENC_CAPA''),
                       enc_base_category = Some (asc ''ENC'') \<rparr> \<rparr>"

definition renamed_cfg :: config where
  "renamed_cfg = \<lparr>
     priorities = [],
     categories =
       [(asc ''CAPA'', \<lparr> aliases = [asc ''ec''], output_format = asc ''numeric'' \<rparr>)],
     special_rules = \<lparr> enc_capa_category = Some (asc ''CAPA''),
                       enc_base_category = Some (asc ''ENC'') \<rparr> \<rparr>"


section \<open>Properties of the text functions and of the category\<close>

lemma contains_iff: "contains sub s \<longleftrightarrow> (\<exists>p q. s = p @ sub @ q)"
proof (induction s)
  case Nil
  then show ?case by auto
next
  case (Cons x xs)
  show ?case
  proof
    assume "contains sub (x # xs)"
    then consider "prefix sub (x # xs)" | "contains sub xs" by auto
    then show "\<exists>p q. x # xs = p @ sub @ q"
    proof cases
      case 1
      then obtain q where "x # xs = sub @ q" by (auto simp: prefix_def)
      then have "x # xs = [] @ sub @ q" by simp
      then show ?thesis by blast
    next
      case 2
      with Cons.IH obtain p q where "xs = p @ sub @ q" by blast
      then have "x # xs = (x # p) @ sub @ q" by simp
      then show ?thesis by blast
    qed
  next
    assume "\<exists>p q. x # xs = p @ sub @ q"
    then obtain p q where pq: "x # xs = p @ sub @ q" by blast
    show "contains sub (x # xs)"
    proof (cases p)
      case Nil
      with pq have "prefix sub (x # xs)" by (simp add: prefix_def)
      then show ?thesis by simp
    next
      case (Cons y ys)
      with pq have "xs = ys @ sub @ q" by simp
      with Cons.IH have "contains sub xs" by blast
      then show ?thesis by simp
    qed
  qed
qed

lemma contains_set: "contains sub s \<Longrightarrow> set sub \<subseteq> set s"
  by (auto simp: contains_iff)

lemma normalize_token_az09: "list_all az09 (normalize_token U x)"
  by (cases x) (simp_all add: list_all_iff)

lemma ascii_stable_ascii_db: "ascii_stable ascii_db"
proof -
  have "map ascii_lower s = s" if "list_all az09 s" for s
    using that by (induction s) (auto simp: az09_def ascii_lower_def)
  then show ?thesis
    by (auto simp: ascii_stable_def ascii_db_def az09_def)
qed

lemma normalize_token_fixed:
  assumes "ascii_stable U" and "list_all az09 s"
  shows "normalize_token U (Str s) = s"
proof -
  from assms have n: "u_nfkd U s = s" and l: "u_lower U s = s"
    by (simp_all add: ascii_stable_def)
  from assms have c: "\<forall>c\<in>set s. u_combining U c = 0"
    by (simp add: ascii_stable_def list_all_iff)
  from c n have "strip_accents U s = s"
    by (simp add: strip_accents_def)
  moreover have "filter az09 (filter (\<lambda>c. \<not> u_isspace U c) s) = s"
    using assms by (simp add: list_all_iff ascii_stable_def)
  ultimately show ?thesis by (simp add: l)
qed

lemma plus_capa_never: "\<not> contains (asc ''+capa'') (normalize_token U x)"
proof
  assume "contains (asc ''+capa'') (normalize_token U x)"
  then have "set (asc ''+capa'') \<subseteq> set (normalize_token U x)" by (rule contains_set)
  then have "43 \<in> set (normalize_token U x)" by (auto simp: asc_def)
  with normalize_token_az09 [of U x] have "az09 43" by (simp add: list_all_iff)
  then show False by (simp add: az09_def)
qed

lemma alias_category_unmapped:
  "\<forall>(cat, meta) \<in> set cats. sku_norm \<notin> set (aliases meta) \<Longrightarrow> alias_category sku_norm cats = []"
  by (induction cats) auto

lemma no_override_keeps_category:
  assumes "\<not> (contains (asc ''encosto'') (normalize_token U (Str variation)) \<and>
              (contains (asc ''capaextra'') (normalize_token U (Str variation)) \<or>
               contains (asc ''comcapa'') (normalize_token U (Str variation))))"
  shows "compute_category_from_variation U initial_category variation enc_capa_cat enc_base_cat
           = initial_category"
proof -
  have "\<not> contains (asc ''+capa'') (normalize_token U (Str variation))"
    by (rule plus_capa_never)
  with assms show ?thesis
    unfolding compute_category_from_variation_def Let_def by presburger
qed

lemma com_capa_gives_base:
  assumes "contains (asc ''encosto'') (normalize_token U (Str variation))"
      and "contains (asc ''comcapa'') (normalize_token U (Str variation))"
      and "\<not> contains (asc ''capaextra'') (normalize_token U (Str variation))"
      and "initial_category \<noteq> enc_capa_cat"
  shows "compute_category_from_variation U initial_category variation enc_capa_cat enc_base_cat
           = enc_base_cat"
  using assms by (simp add: compute_category_from_variation_def)

section \<open>Properties of the patterns\<close>

















section \<open>Blocks and runs\<close>











section \<open>Rendering and aggregation\<close>





















section \<open>The claims\<close>

text \<open>
  C9. \<^verbatim>\<open>normalize_token\<close> is idempotent, its result holds characters of \<^verbatim>\<open>[a-z0-9]\<close> only,
  and an input that is no string or is the empty string gives the empty key. The tables are
  any that leave text of \<^verbatim>\<open>[a-z0-9]\<close> unchanged, as the Unicode tables do.
\<close>

theorem normalize_token_idempotent:
  assumes "ascii_stable U"
  shows "normalize_token U (Str (normalize_token U x)) = normalize_token U x \<and>
         list_all az09 (normalize_token U x) \<and>
         normalize_token U NonStr = [] \<and>
         normalize_token U (Str []) = []"
proof -
  have a: "list_all az09 (normalize_token U x)" by (rule normalize_token_az09)
  from assms a have i: "normalize_token U (Str (normalize_token U x)) = normalize_token U x"
    by (rule normalize_token_fixed)
  have n: "normalize_token U NonStr = []" by simp
  have e: "normalize_token U (Str []) = []"
    using assms by (rule normalize_token_fixed) simp
  from i a n e show ?thesis by (simp only: simp_thms)
qed

theorem normalize_token_idempotent_witness:
  "ascii_stable ascii_db \<and>
   normalize_token ascii_db (Str (asc ''Cafe  2'')) = asc ''cafe2'' \<and>
   normalize_token ascii_db (Str (normalize_token ascii_db (Str (asc ''Cafe  2''))))
     = normalize_token ascii_db (Str (asc ''Cafe  2''))"
proof -
  have v: "normalize_token ascii_db (Str (asc ''Cafe  2'')) = asc ''cafe2''"
    by code_simp
  from normalize_token_idempotent [OF ascii_stable_ascii_db, of "Str (asc ''Cafe  2'')"]
  have "normalize_token ascii_db (Str (normalize_token ascii_db (Str (asc ''Cafe  2''))))
          = normalize_token ascii_db (Str (asc ''Cafe  2''))"
    by (rule conjunct1)
  with v ascii_stable_ascii_db show ?thesis
    by (simp only: simp_thms)
qed

text \<open>
  C5. When the normalized variation contains both \<open>encosto\<close> and \<open>capaextra\<close>, the category
  is the configured \<^verbatim>\<open>enc_capa_category\<close>, whatever the aliases gave in the first step.
\<close>

theorem capa_extra_overrides:
  assumes "contains (asc ''encosto'') (normalize_token U (Str variation))"
      and "contains (asc ''capaextra'') (normalize_token U (Str variation))"
  shows "compute_category_from_variation U initial_category variation enc_capa_cat enc_base_cat
           = enc_capa_cat \<and>
         resolve U sku_raw variation cfg = enc_capa_cat_of cfg"
  using assms by (simp add: compute_category_from_variation_def resolve_def)

theorem capa_extra_overrides_witness:
  "contains (asc ''encosto'') (normalize_token ascii_db (Str (asc ''Encosto + Capa Extra''))) \<and>
   contains (asc ''capaextra'') (normalize_token ascii_db (Str (asc ''Encosto + Capa Extra''))) \<and>
   alias_category (normalize_token ascii_db (Str (asc ''K1''))) (categories example_cfg) = asc ''PR'' \<and>
   resolve ascii_db (asc ''K1'') (asc ''Encosto + Capa Extra'') example_cfg = asc ''ENC_CAPA'' \<and>
   resolve ascii_db (asc ''unknown'') (asc ''Encosto + Capa Extra'') example_cfg = asc ''ENC_CAPA''"
proof -
  have a: "contains (asc ''encosto'') (normalize_token ascii_db (Str (asc ''Encosto + Capa Extra'')))"
    by code_simp
  have b: "contains (asc ''capaextra'') (normalize_token ascii_db (Str (asc ''Encosto + Capa Extra'')))"
    by code_simp
  have c: "alias_category (normalize_token ascii_db (Str (asc ''K1''))) (categories example_cfg) = asc ''PR''"
    by code_simp
  have d: "enc_capa_cat_of example_cfg = asc ''ENC_CAPA''"
    by code_simp
  have r1: "resolve ascii_db (asc ''K1'') (asc ''Encosto + Capa Extra'') example_cfg = asc ''ENC_CAPA''"
    using capa_extra_overrides [OF a b, of _ _ _ "asc ''K1''" example_cfg] by (simp only: d)
  have r2: "resolve ascii_db (asc ''unknown'') (asc ''Encosto + Capa Extra'') example_cfg = asc ''ENC_CAPA''"
    using capa_extra_overrides [OF a b, of _ _ _ "asc ''unknown''" example_cfg] by (simp only: d)
  from a b c r1 r2 show ?thesis
    by (simp only: simp_thms)
qed

text \<open>
  C1. The variation \<open>Encosto + Capa\<close> with a SKU aliased to \<open>PR\<close>: the normalized variation is
  \<open>encostocapa\<close>, which holds neither \<open>comcapa\<close> nor a plus sign, so the category stays \<open>PR\<close>
  and is not the configured \<^verbatim>\<open>enc_base_category\<close>.
\<close>

theorem encosto_plus_capa_keeps_alias_category:
  "normalize_token ascii_db (Str (asc ''Encosto + Capa'')) = asc ''encostocapa'' \<and>
   resolve ascii_db (asc ''K1'') (asc ''Encosto + Capa'') example_cfg = asc ''PR'' \<and>
   enc_base_cat_of example_cfg = asc ''ENC'' \<and>
   enc_capa_cat_of example_cfg = asc ''ENC_CAPA''"
  by code_simp

text \<open>
  C6. An item with a category: when the category is the configured \<^verbatim>\<open>enc_capa_category\<close> and
  the normalized variation contains \<open>capaextra\<close>, the one output is a counted marker whose
  value is \<^verbatim>\<open>kits_purchased\<close>, the quantity of the block or 1 when that is zero; otherwise
  the one output is numeric with the value \<^verbatim>\<open>unidades = kit_qty * kits_purchased\<close>.
\<close>

theorem counted_marker_counts_kits:
  assumes "resolve U sku_raw variation cfg = category" and "category \<noteq> []"
  shows "(category = enc_capa_cat_of cfg \<and>
          contains (asc ''capaextra'') (normalize_token U (Str variation)) \<longrightarrow>
            fst (compute_outputs_single_item U sku_raw variation qty cfg)
              = [(category, Enc_capa (if qty \<noteq> 0 then qty else 1))]) \<and>
         (\<not> (category = enc_capa_cat_of cfg \<and>
             contains (asc ''capaextra'') (normalize_token U (Str variation))) \<longrightarrow>
            fst (compute_outputs_single_item U sku_raw variation qty cfg)
              = [(category, Numeric (quant_kit_from_variation U (Str variation)
                                      * (if qty \<noteq> 0 then qty else 1)))]) \<and>
         d_kits_purchased (snd (compute_outputs_single_item U sku_raw variation qty cfg))
           = (if qty \<noteq> 0 then qty else 1) \<and>
         d_unidades (snd (compute_outputs_single_item U sku_raw variation qty cfg))
           = quant_kit_from_variation U (Str variation) * (if qty \<noteq> 0 then qty else 1)"
  using assms by (simp add: compute_outputs_single_item_def Let_def)

theorem counted_marker_counts_kits_witness:
  "resolve ascii_db (asc ''EC'') (asc ''Capa Extra 2'') example_cfg = asc ''ENC_CAPA'' \<and>
   fst (compute_outputs_single_item ascii_db (asc ''EC'') (asc ''Capa Extra 2'') 3 example_cfg)
     = [(asc ''ENC_CAPA'', Enc_capa 3)] \<and>
   d_unidades (snd (compute_outputs_single_item ascii_db (asc ''EC'') (asc ''Capa Extra 2'') 3 example_cfg))
     = 6 \<and>
   fst (compute_outputs_single_item ascii_db (asc ''EC'') (asc ''Capa Extra 2'') 0 example_cfg)
     = [(asc ''ENC_CAPA'', Enc_capa 1)]"
proof -
  have r: "resolve ascii_db (asc ''EC'') (asc ''Capa Extra 2'') example_cfg = asc ''ENC_CAPA''"
    by code_simp
  have n: "asc ''ENC_CAPA'' \<noteq> []"
    by code_simp
  have e: "asc ''ENC_CAPA'' = enc_capa_cat_of example_cfg"
    by code_simp
  have c: "contains (asc ''capaextra'') (normalize_token ascii_db (Str (asc ''Capa Extra 2'')))"
    by code_simp
  have k: "quant_kit_from_variation ascii_db (Str (asc ''Capa Extra 2'')) = 2"
    by code_simp
  from counted_marker_counts_kits [OF r n, of 3] counted_marker_counts_kits [OF r n, of 0] e c k r
  show ?thesis by simp
qed

text \<open>
  C8, as stated, fails: a SKU that no alias matches still gets a category when the variation
  triggers an override, and then produces an output.
\<close>

theorem unmapped_sku_overridden:
  "list_all (\<lambda>(cat, meta). normalize_token ascii_db (Str (asc ''ZZ9'')) \<notin> set (aliases meta))
     (categories example_cfg) \<and>
   resolve ascii_db (asc ''ZZ9'') (asc ''Encosto + Capa Extra'') example_cfg = asc ''ENC_CAPA'' \<and>
   fst (compute_outputs_single_item ascii_db (asc ''ZZ9'') (asc ''Encosto + Capa Extra'') 2 example_cfg)
     = [(asc ''ENC_CAPA'', Enc_capa 2)] \<and>
   d_category (snd (compute_outputs_single_item ascii_db (asc ''ZZ9'') (asc ''Encosto + Capa Extra'') 2
      example_cfg)) = asc ''ENC_CAPA''"
  by code_simp

text \<open>
  C8, amended. An item whose normalized SKU is in no alias set and whose normalized variation
  does not contain \<open>encosto\<close> together with \<open>capaextra\<close> or \<open>comcapa\<close> has the empty category
  and no output; its block leaves both accumulators of the row as they were and adds exactly
  one diagnostic record, whose category is empty.
\<close>

theorem unmapped_sku_no_output:
  assumes "extract_sku_and_var_from_text U (Str blk) = (sku_raw, variation)"
      and "\<forall>(cat, meta) \<in> set (categories cfg). normalize_token U (Str sku_raw) \<notin> set (aliases meta)"
      and "\<not> (contains (asc ''encosto'') (normalize_token U (Str variation)) \<and>
              (contains (asc ''capaextra'') (normalize_token U (Str variation)) \<or>
               contains (asc ''comcapa'') (normalize_token U (Str variation))))"
  shows "resolve U sku_raw variation cfg = [] \<and>
         fst (compute_outputs_single_item U sku_raw variation qty cfg) = [] \<and>
         d_category (snd (compute_outputs_single_item U sku_raw variation qty cfg)) = [] \<and>
         accum_numeric (process_block U cfg sn acc blk) = accum_numeric acc \<and>
         accum_enc_capa (process_block U cfg sn acc blk) = accum_enc_capa acc \<and>
         diag_rows (process_block U cfg sn acc blk) =
           diag_rows acc @
             [(sn, snd (compute_outputs_single_item U sku_raw variation
                          (extract_quantity_from_text U (Str blk) (Some 1)) cfg))]"
proof -
  from assms(2) have "alias_category (normalize_token U (Str sku_raw)) (categories cfg) = []"
    by (rule alias_category_unmapped)
  with no_override_keeps_category [OF assms(3)]
  have r: "resolve U sku_raw variation cfg = []"
    by (simp add: resolve_def)
  then have f: "fst (compute_outputs_single_item U sku_raw variation q cfg) = []" for q
    by (simp add: compute_outputs_single_item_def Let_def)
  have d: "d_category (snd (compute_outputs_single_item U sku_raw variation q cfg)) = []" for q
    using r by (simp add: compute_outputs_single_item_def Let_def)
  have p: "process_block U cfg sn acc blk =
      acc\<lparr>per_block_variations := per_block_variations acc @
             [d_variation_seen (snd (compute_outputs_single_item U sku_raw variation
                (extract_quantity_from_text U (Str blk) (Some 1)) cfg))],
          per_block_sku := per_block_sku acc @
             [d_sku_raw (snd (compute_outputs_single_item U sku_raw variation
                (extract_quantity_from_text U (Str blk) (Some 1)) cfg))],
          diag_rows := diag_rows acc @
             [(sn, snd (compute_outputs_single_item U sku_raw variation
                (extract_quantity_from_text U (Str blk) (Some 1)) cfg))]\<rparr>"
    unfolding process_block_def Let_def assms(1)
    by (simp add: case_prod_beta f)
  show ?thesis
    using r f [of qty] d [of qty] by (simp add: p)
qed

theorem unmapped_sku_no_output_witness:
  "extract_sku_and_var_from_text ascii_db
      (Str (asc ''[1] SKU Reference No.: ZZ9; Variation Name: 2 u; Quantity: 4''))
     = (asc ''ZZ9'', asc ''2 u'') \<and>
   resolve ascii_db (asc ''ZZ9'') (asc ''2 u'') example_cfg = [] \<and>
   accum_enc_capa (process_block ascii_db example_cfg (Some (asc ''A'')) empty_acc
      (asc ''[1] SKU Reference No.: ZZ9; Variation Name: 2 u; Quantity: 4'')) = 0 \<and>
   map (d_category \<circ> snd) (diag_rows (process_block ascii_db example_cfg (Some (asc ''A'')) empty_acc
      (asc ''[1] SKU Reference No.: ZZ9; Variation Name: 2 u; Quantity: 4''))) = [[]]"
proof -
  have x: "extract_sku_and_var_from_text ascii_db
      (Str (asc ''[1] SKU Reference No.: ZZ9; Variation Name: 2 u; Quantity: 4''))
     = (asc ''ZZ9'', asc ''2 u'')"
    by code_simp
  have u: "\<forall>(cat, meta) \<in> set (categories example_cfg).
      normalize_token ascii_db (Str (asc ''ZZ9'')) \<notin> set (aliases meta)"
    by code_simp
  have v: "\<not> (contains (asc ''encosto'') (normalize_token ascii_db (Str (asc ''2 u''))) \<and>
              (contains (asc ''capaextra'') (normalize_token ascii_db (Str (asc ''2 u''))) \<or>
               contains (asc ''comcapa'') (normalize_token ascii_db (Str (asc ''2 u'')))))"
    by code_simp
  from unmapped_sku_no_output [OF x u v,
         of "extract_quantity_from_text ascii_db
               (Str (asc ''[1] SKU Reference No.: ZZ9; Variation Name: 2 u; Quantity: 4'')) (Some 1)"
            "Some (asc ''A'')" empty_acc]
  show ?thesis
    by (simp add: x empty_acc_def)
qed






text \<open>
  C3. With the counted-marker category configured under the name \<open>CAPA\<close>, an order whose
  counter is 2 has an empty cell in the column \<open>CAPA\<close>: the rendering \<open>2 + C\<close> is stored
  under the fixed key \<open>ENC_CAPA\<close>, which is no column of that table. Only when the configured
  name is \<open>ENC_CAPA\<close> does the column of the category hold it.
\<close>

theorem counted_marker_written_under_fixed_key:
  "enc_capa_cat_of renamed_cfg = asc ''CAPA'' \<and>
   out_cols ascii_db renamed_cfg = [asc ''CAPA''] \<and>
   accum_enc_capa (foldl (process_block ascii_db renamed_cfg (Some (asc ''B''))) empty_acc
      (blocks_of ascii_db (Str (asc ''SKU Reference No.: EC; Variation Name: Capa Extra; Quantity: 2''))))
     = 2 \<and>
   r_cells (fst (process_row ascii_db renamed_cfg
      \<lparr> order_sn = Some (asc ''B''),
        product_info = Str (asc ''SKU Reference No.: EC; Variation Name: Capa Extra; Quantity: 2'') \<rparr>))
      (asc ''CAPA'') = Some (Txt []) \<and>
   r_cells (fst (process_row ascii_db example_cfg
      \<lparr> order_sn = Some (asc ''B''),
        product_info = Str (asc ''SKU Reference No.: EC; Variation Name: Capa Extra; Quantity: 2'') \<rparr>))
      (asc ''ENC_CAPA'') = Some (Txt (asc ''2 + C''))"
  by code_simp

text \<open>
  C2. Two orders, A with a numeric item and B with a counted marker of 2: in the summary the
  cell \<open>ENC_CAPA\<close> of B is the number 2, not the text \<open>2 + C\<close>, and that of A, which has no
  counted marker, is the number 0, not empty; the row \<open>TOTAL\<close> does hold \<open>2 + C\<close>.
\<close>

theorem summary_counted_marker_is_a_number:
  "(case run_process ascii_db example_cfg
      [\<lparr> order_sn = Some (asc ''A''),
         product_info = Str (asc ''SKU Reference No.: R7; Variation Name: 2 u; Quantity: 4'') \<rparr>,
       \<lparr> order_sn = Some (asc ''B''),
         product_info = Str (asc ''SKU Reference No.: EC; Variation Name: Capa Extra; Quantity: 2'') \<rparr>]
    of Inl e \<Rightarrow> False
     | Inr t \<Rightarrow>
         map (\<lambda>r. cell_at r (asc ''ENC_CAPA'')) (df_det t) = [Txt [], Txt (asc ''2 + C'')] \<and>
         map (\<lambda>r. (s_order_sn r, s_cells r (asc ''ENC_CAPA''), s_cells r (asc ''R70''))) (resumo t)
           = [(asc ''A'', Some (Num 0), Some (Num 8)), (asc ''B'', Some (Num 2), Some (Txt []))] \<and>
         total_row t (asc ''ENC_CAPA'') = Some (Txt (asc ''2 + C'')) \<and>
         total_row t (asc ''R70'') = Some (Num 8))"
  by code_simp




end
